theory Spec2Isabelle
  imports Main
begin

section \<open>Nagar Rakshak: complaint intake, routing and lifecycle notifications\<close>

text \<open>
  The development embeds
  \<^item> \<^verbatim>\<open>mapAuthorityForIssue\<close>, \<^verbatim>\<open>handleMediaUpload\<close> and \<^verbatim>\<open>handleSubmit\<close> of
    \<^verbatim>\<open>src/components/ComplaintRegistration.tsx\<close>;
  \<^item> \<^verbatim>\<open>createNotification\<close> and \<^verbatim>\<open>createComplaintNotifications\<close> of
    \<^verbatim>\<open>src/services/notificationService.ts\<close>.
  React state is a record that each handler takes and returns; the Supabase backend is a
  record of tables; what a backend call answers is a parameter of the handler.
\<close>

subsection \<open>JavaScript strings\<close>

text \<open>
  Strings are lists of 8-bit characters. \<^verbatim>\<open>toLowerCase\<close> is modelled on the ASCII
  letters, which is all the routing keywords and the issue-type vocabulary contain.
\<close>

definition upperChars :: string where
  "upperChars = ''ABCDEFGHIJKLMNOPQRSTUVWXYZ''"

definition lowerChars :: string where
  "lowerChars = ''abcdefghijklmnopqrstuvwxyz''"

definition toLowerChar :: "char \<Rightarrow> char" where
  "toLowerChar c = (case map_of (zip upperChars lowerChars) c of None \<Rightarrow> c | Some d \<Rightarrow> d)"

definition toLowerCase :: "string \<Rightarrow> string" where
  "toLowerCase s = map toLowerChar s"

text \<open>\<^verbatim>\<open>s.startsWith(sub)\<close> and \<^verbatim>\<open>s.includes(sub)\<close>: \<open>sub\<close> occurs in \<open>s\<close> as a
  contiguous run of characters.\<close>

fun startsWith :: "string \<Rightarrow> string \<Rightarrow> bool" where
  "startsWith s [] = True"
| "startsWith [] (y # ys) = False"
| "startsWith (x # xs) (y # ys) = (x = y \<and> startsWith xs ys)"

fun includes_str :: "string \<Rightarrow> string \<Rightarrow> bool" where
  "includes_str [] sub = (sub = [])"
| "includes_str (x # xs) sub = (startsWith (x # xs) sub \<or> includes_str xs sub)"

text \<open>\<^verbatim>\<open>s.split(c)\<close> for a one-character separator: never empty, \<open>split_str c '''' = ['''']\<close>.\<close>

fun split_str :: "char \<Rightarrow> string \<Rightarrow> string list" where
  "split_str c [] = [[]]"
| "split_str c (x # xs) =
     (if x = c then [] # split_str c xs
      else (case split_str c xs of [] \<Rightarrow> [[x]] | y # ys \<Rightarrow> (x # y) # ys))"

text \<open>\<^verbatim>\<open>xs[i]\<close> on an array: \<^verbatim>\<open>undefined\<close> out of range.\<close>

definition at_index :: "'a list \<Rightarrow> nat \<Rightarrow> 'a option" where
  "at_index xs i = (if i < length xs then Some (xs ! i) else None)"

text \<open>\<^verbatim>\<open>xs.pop()\<close> read for its value: the last element, \<^verbatim>\<open>undefined\<close> on the empty array.\<close>

definition pop_last :: "'a list \<Rightarrow> 'a option" where
  "pop_last xs = (case rev xs of [] \<Rightarrow> None | x # _ \<Rightarrow> Some x)"

text \<open>A number inside a template literal: its decimal digits.\<close>

definition digit_char :: "nat \<Rightarrow> char" where
  "digit_char d = (''0123456789'' ! d)"

function string_of_nat :: "nat \<Rightarrow> string" where
  "string_of_nat n = (if n < 10 then [digit_char n] else string_of_nat (n div 10) @ [digit_char (n mod 10)])"
  by pat_completeness auto
termination
  by (relation "measure id") auto

declare string_of_nat.simps [simp del]

subsection \<open>RoutingResolver: \<^verbatim>\<open>mapAuthorityForIssue\<close>\<close>

text \<open>The values of the \<^verbatim>\<open>issueTypes\<close> table, in its order.\<close>

definition issueTypes :: "string list" where
  "issueTypes = [''streetlight'', ''pothole'', ''garbage'', ''drainage'', ''water'',
     ''electricity'', ''noise'', ''others'']"

text \<open>\<^verbatim>\<open>(issue || '''')\<close> is the identity on strings: the only falsy string is the empty one.\<close>

definition mapAuthorityForIssue :: "string \<Rightarrow> string option" where
  "mapAuthorityForIssue issue =
     (let normalized = toLowerCase issue in
      if includes_str normalized ''electric'' then Some ''Electricity Department''
      else if includes_str normalized ''water'' \<or> includes_str normalized ''drain''
        then Some ''Jal Board / Water Supply Department''
      else if includes_str normalized ''garbage'' then Some ''Nagar Nigam / Municipal Corporation''
      else if includes_str normalized ''pothole'' \<or> includes_str normalized ''road''
        then Some ''Public Works Department (PWD)''
      else if includes_str normalized ''street''
        then Some ''Nagar Nigam / Municipal Corporation (Street Lighting Division)''
      else if includes_str normalized ''transport'' then Some ''Local Transport Authority / RTO''
      else if includes_str normalized ''noise''
        then Some ''Pollution Control Board / Local Police Authority''
      else None)"

text \<open>
  The routing policy as the specification words it, on the tokens of the closed issue-type
  set: electricity goes to the power authority, water and drainage to the water authority,
  garbage to municipal sanitation, pothole to public works, streetlight to the municipal
  lighting division, noise to the pollution or police authority, anything else to nobody.
\<close>

definition routing_policy :: "string \<Rightarrow> string option" where
  "routing_policy token =
     (if token = ''electricity'' then Some ''Electricity Department''
      else if token = ''water'' \<or> token = ''drainage'' then Some ''Jal Board / Water Supply Department''
      else if token = ''garbage'' then Some ''Nagar Nigam / Municipal Corporation''
      else if token = ''pothole'' then Some ''Public Works Department (PWD)''
      else if token = ''streetlight''
        then Some ''Nagar Nigam / Municipal Corporation (Street Lighting Division)''
      else if token = ''noise'' then Some ''Pollution Control Board / Local Police Authority''
      else None)"

subsection \<open>What the component holds\<close>

text \<open>A \<^verbatim>\<open>File\<close>: its name and its bytes.\<close>

record js_file =
  file_name :: string
  file_bytes :: string

text \<open>The \<^verbatim>\<open>formData\<close> state of the component, with the source's field names.\<close>

record form_data =
  state :: string
  city :: string
  district :: string
  address1 :: string
  address2 :: string
  issueType :: string
  description :: string
  media :: "js_file option"
  audio :: "js_file option"

datatype step = Form | Success

datatype variant = Default | Destructive

text \<open>A toast: title, description and the optional variant.\<close>

datatype toast = Toast string string "variant option"

text \<open>A value that is thrown, caught or logged: an error object of the backend client, or
  the \<^verbatim>\<open>TypeError\<close> of reading a property of \<^verbatim>\<open>null\<close>.\<close>

datatype js_error = ClientError string | TypeError string

text \<open>
  The component's state: the \<^verbatim>\<open>useState\<close> cells that the two handlers touch, the
  value of the file input the change event came from, and what the handlers show and log
  (toasts and \<^verbatim>\<open>console.error\<close> lines, oldest first).
\<close>

record ui =
  step :: step
  complaintId :: string
  isSubmitting :: bool
  isAnalyzing :: bool
  formData :: form_data
  inputValue :: string
  toasts :: "toast list"
  console :: "js_error list"

subsection \<open>The backend\<close>

text \<open>
  The Supabase client is imported, not defined, by the sources. Every call site awaits a
  call and destructures its answer into \<^verbatim>\<open>data\<close> and \<^verbatim>\<open>error\<close>, inside a
  \<^verbatim>\<open>try\<close> block: so an awaited call has three answers, data with no error, an error
  in the \<^verbatim>\<open>error\<close> field, or a rejected promise, which \<^verbatim>\<open>await\<close> turns into a throw.
  \<^verbatim>\<open>createNotification\<close> handles the two failures separately, testing the field and
  catching the throw, each with its own \<^verbatim>\<open>console.error\<close>.
\<close>

datatype 'a reply = Data 'a | ErrorField js_error | Throws js_error

datatype complaint_status = Pending | Assigned | InProgress | Resolved | Closed

datatype stage = confirmation | acknowledgement | resolution

text \<open>A row of \<^verbatim>\<open>complaints\<close>: the columns the insert and the update write, and the two the
  store generates.\<close>

record complaint_row =
  c_id :: string
  c_complaint_code :: string
  c_state :: string
  c_city :: string
  c_address_line1 :: "string option"
  c_address_line2 :: "string option"
  c_issue_type :: string
  c_description :: string
  c_media_url :: "string option"
  c_voice_note_url :: "string option"
  c_status :: complaint_status
  c_assigned_to :: "string option"

text \<open>A row of \<^verbatim>\<open>complaint_status_updates\<close>.\<close>

record status_update_row =
  su_complaint_id :: string
  su_status :: complaint_status
  su_assigned_to :: "string option"
  su_note :: string

text \<open>A row of \<^verbatim>\<open>notifications\<close>.\<close>

record notification_row =
  n_complaint_id :: string
  n_complaint_code :: string
  n_stage :: stage
  n_message :: string
  n_user_id :: string
  n_is_read :: bool

text \<open>The columns \<^verbatim>\<open>handleSubmit\<close> sends with its insert.\<close>

record complaint_values =
  v_state :: string
  v_city :: string
  v_address_line1 :: "string option"
  v_address_line2 :: "string option"
  v_issue_type :: string
  v_description :: string
  v_media_url :: "string option"
  v_voice_note_url :: "string option"

text \<open>What the insert selects back and the code reads: \<^verbatim>\<open>id\<close> and \<^verbatim>\<open>complaint_code\<close>,
  both generated by the store.\<close>

record inserted =
  ins_id :: string
  ins_complaint_code :: string

text \<open>A request sent to the backend.\<close>

datatype request =
    FunctionsInvoke string "string option" string
  | StorageUpload string js_file
  | ComplaintsInsert complaint_values
  | ComplaintsUpdate string complaint_status string
  | StatusUpdatesInsert status_update_row
  | NotificationsInsert notification_row

text \<open>The backend: the bucket, the three tables (rows in insertion order) and every request
  it was sent, oldest first.\<close>

record backend =
  blobs :: "(string \<times> js_file) list"
  complaints :: "complaint_row list"
  complaint_status_updates :: "status_update_row list"
  notifications :: "notification_row list"
  requests :: "request list"

text \<open>
  Modelled from the spec: the blob store, the ComplaintStore and the Notification sink of
  \<section>6, which are the hosted backend and not code of the repository. A request is recorded
  when it is sent; it writes when its answer is data, and writes nothing when its answer is
  an error or a rejection. A new complaint starts \<open>Pending\<close> with no authority (\<section>4.3),
  under the id and code the store generated.
\<close>

definition storage_upload :: "unit reply \<Rightarrow> string \<Rightarrow> js_file \<Rightarrow> backend \<Rightarrow> backend" where
  "storage_upload r name f b =
     (let b' = b\<lparr>requests := requests b @ [StorageUpload name f]\<rparr> in
      case r of Data _ \<Rightarrow> b'\<lparr>blobs := blobs b' @ [(name, f)]\<rparr> | _ \<Rightarrow> b')"

definition new_complaint_row :: "inserted \<Rightarrow> complaint_values \<Rightarrow> complaint_row" where
  "new_complaint_row d v =
     \<lparr>c_id = ins_id d, c_complaint_code = ins_complaint_code d, c_state = v_state v,
      c_city = v_city v, c_address_line1 = v_address_line1 v,
      c_address_line2 = v_address_line2 v, c_issue_type = v_issue_type v,
      c_description = v_description v, c_media_url = v_media_url v,
      c_voice_note_url = v_voice_note_url v, c_status = Pending, c_assigned_to = None\<rparr>"

definition complaints_insert :: "inserted reply \<Rightarrow> complaint_values \<Rightarrow> backend \<Rightarrow> backend" where
  "complaints_insert r v b =
     (let b' = b\<lparr>requests := requests b @ [ComplaintsInsert v]\<rparr> in
      case r of Data d \<Rightarrow> b'\<lparr>complaints := complaints b' @ [new_complaint_row d v]\<rparr> | _ \<Rightarrow> b')"

definition complaints_update :: "unit reply \<Rightarrow> string \<Rightarrow> complaint_status \<Rightarrow> string \<Rightarrow> backend \<Rightarrow> backend" where
  "complaints_update r cid st authority b =
     (let b' = b\<lparr>requests := requests b @ [ComplaintsUpdate cid st authority]\<rparr> in
      case r of
        Data _ \<Rightarrow> b'\<lparr>complaints :=
          map (\<lambda>c. if c_id c = cid then c\<lparr>c_status := st, c_assigned_to := Some authority\<rparr> else c)
            (complaints b')\<rparr>
      | _ \<Rightarrow> b')"

definition status_updates_insert :: "unit reply \<Rightarrow> status_update_row \<Rightarrow> backend \<Rightarrow> backend" where
  "status_updates_insert r row b =
     (let b' = b\<lparr>requests := requests b @ [StatusUpdatesInsert row]\<rparr> in
      case r of
        Data _ \<Rightarrow> b'\<lparr>complaint_status_updates := complaint_status_updates b' @ [row]\<rparr>
      | _ \<Rightarrow> b')"


text \<open>What \<^verbatim>\<open>await\<close> followed by \<^verbatim>\<open>if (error) throw error\<close> leaves: the data, or a throw.\<close>

definition await_checked :: "'a reply \<Rightarrow> js_error + 'a" where
  "await_checked r = (case r of Data d \<Rightarrow> Inr d | ErrorField e \<Rightarrow> Inl e | Throws e \<Rightarrow> Inl e)"

text \<open>What a bare \<^verbatim>\<open>await\<close>, its result dropped, leaves: nothing, or a throw when the promise
  rejects. An error in the \<^verbatim>\<open>error\<close> field is not looked at.\<close>

definition await_ignored :: "'a reply \<Rightarrow> js_error + unit" where
  "await_ignored r = (case r of Throws e \<Rightarrow> Inl e | _ \<Rightarrow> Inr ())"

subsection \<open>\<^verbatim>\<open>handleMediaUpload\<close>\<close>

text \<open>The body the classification function answers with; a missing \<^verbatim>\<open>is_relevant\<close> is
  falsy, so it reads as \<open>False\<close>.\<close>

record analysis =
  is_relevant :: bool
  ai_description :: string
  reason :: "string option"

text \<open>What the handler is given from outside: what the \<^verbatim>\<open>FileReader\<close> produced and how
  \<^verbatim>\<open>functions.invoke\<close> answers (its \<^verbatim>\<open>data\<close> may be \<^verbatim>\<open>null\<close>).\<close>

record upload_env =
  reader_result :: "string option"
  invoke_reply :: "analysis option reply"

definition select_issue_toast :: toast where
  "select_issue_toast = Toast ''Please select an issue type first''
     ''The AI needs to know what kind of issue to look for.'' (Some Destructive)"

definition analyzed_toast :: toast where
  "analyzed_toast = Toast ''Image Analyzed Successfully''
     ''An AI-generated description has been added.'' None"

definition irrelevant_toast :: "string option \<Rightarrow> toast" where
  "irrelevant_toast r = Toast ''Irrelevant Image Detected''
     (case r of None \<Rightarrow> ''Please upload an image related to the selected issue.''
      | Some t \<Rightarrow> if t = [] then ''Please upload an image related to the selected issue.'' else t)
     (Some Destructive)"

definition analysis_failed_toast :: toast where
  "analysis_failed_toast = Toast ''AI Analysis Failed''
     ''Could not analyze the image. Please write a description manually.'' (Some Destructive)"

text \<open>
  The synchronous part of the handler, up to the start of the file read. It returns the new
  state and, when the analysis goes ahead, the file and the issue type that the
  \<^verbatim>\<open>onloadend\<close> closure captured.
\<close>

definition handleMediaUpload_start :: "js_file option \<Rightarrow> ui \<Rightarrow> ui \<times> (js_file \<times> string) option" where
  "handleMediaUpload_start file u =
     (case file of
        None \<Rightarrow> (u, None)
      | Some f \<Rightarrow>
          if issueType (formData u) = [] then
            (u\<lparr>toasts := toasts u @ [select_issue_toast], inputValue := []\<rparr>, None)
          else
            (u\<lparr>formData := (formData u)\<lparr>media := Some f, description := []\<rparr>,
               isAnalyzing := True\<rparr>,
             Some (f, issueType (formData u))))"

text \<open>\<^verbatim>\<open>reader.result?.toString().split('','')[1]\<close>\<close>

definition base64data :: "string option \<Rightarrow> string option" where
  "base64data r = (case r of None \<Rightarrow> None | Some t \<Rightarrow> at_index (split_str CHR '','' t) 1)"

text \<open>The \<^verbatim>\<open>try\<close> block of \<^verbatim>\<open>onloadend\<close> after the call: a throw, or the new state.\<close>

definition analysis_try :: "analysis option reply \<Rightarrow> ui \<Rightarrow> js_error + ui" where
  "analysis_try r u =
     (case await_checked r of
        Inl e \<Rightarrow> Inl e
      | Inr None \<Rightarrow> Inl (TypeError ''Cannot read properties of null'')
      | Inr (Some d) \<Rightarrow>
          if is_relevant d then
            Inr (u\<lparr>formData := (formData u)\<lparr>description := ai_description d\<rparr>,
                   toasts := toasts u @ [analyzed_toast]\<rparr>)
          else
            Inr (u\<lparr>formData := (formData u)\<lparr>media := None\<rparr>,
                   inputValue := [],
                   toasts := toasts u @ [irrelevant_toast (reason d)]\<rparr>))"

text \<open>The \<^verbatim>\<open>onloadend\<close> callback: call, \<^verbatim>\<open>try\<close>, \<^verbatim>\<open>catch\<close>, \<^verbatim>\<open>finally\<close>. The state
  updates are functional (\<^verbatim>\<open>prev => ...\<close>), so they apply to the state the callback finds.\<close>

definition onloadend :: "upload_env \<Rightarrow> string \<Rightarrow> ui \<Rightarrow> backend \<Rightarrow> ui \<times> backend" where
  "onloadend env captured u b =
     (let b' = b\<lparr>requests := requests b @
                 [FunctionsInvoke ''analyze-complaint-image'' (base64data (reader_result env)) captured]\<rparr>;
          u' = (case analysis_try (invoke_reply env) u of
                  Inr u1 \<Rightarrow> u1
                | Inl e \<Rightarrow> u\<lparr>console := console u @ [e],
                             toasts := toasts u @ [analysis_failed_toast]\<rparr>)
      in (u'\<lparr>isAnalyzing := False\<rparr>, b'))"

text \<open>The handler with its callback run right after it.\<close>

definition handleMediaUpload :: "upload_env \<Rightarrow> js_file option \<Rightarrow> ui \<Rightarrow> backend \<Rightarrow> ui \<times> backend" where
  "handleMediaUpload env file u b =
     (case handleMediaUpload_start file u of
        (u1, None) \<Rightarrow> (u1, b)
      | (u1, Some (f, captured)) \<Rightarrow> onloadend env captured u1 b)"

text \<open>
  The body of a response as it is parsed, each field there or missing; by the interface of
  the classification service a body always says whether the image is relevant, so one
  without \<^verbatim>\<open>is_relevant\<close> is malformed. \<open>read_body\<close> is what the handler's property reads
  make of a parsed body: a missing \<^verbatim>\<open>is_relevant\<close> is \<^verbatim>\<open>undefined\<close>, which is falsy.
\<close>

record response_body =
  rb_is_relevant :: "bool option"
  rb_description :: "string option"
  rb_reason :: "string option"

definition well_formed :: "response_body \<Rightarrow> bool" where
  "well_formed rb = (rb_is_relevant rb \<noteq> None)"

definition read_body :: "response_body \<Rightarrow> analysis" where
  "read_body rb =
     \<lparr>is_relevant = (rb_is_relevant rb = Some True),
      ai_description = (case rb_description rb of None \<Rightarrow> [] | Some t \<Rightarrow> t),
      reason = rb_reason rb\<rparr>"

text \<open>The description box: its \<^verbatim>\<open>onChange\<close> and its \<^verbatim>\<open>disabled\<close> flag; and the
  \<^verbatim>\<open>disabled\<close> flag of the submit button.\<close>

definition description_onChange :: "string \<Rightarrow> ui \<Rightarrow> ui" where
  "description_onChange v u = u\<lparr>formData := (formData u)\<lparr>description := v\<rparr>\<rparr>"

definition description_disabled :: "ui \<Rightarrow> bool" where
  "description_disabled u = isAnalyzing u"

definition submit_disabled :: "ui \<Rightarrow> bool" where
  "submit_disabled u = (isSubmitting u \<or> isAnalyzing u)"

subsection \<open>\<^verbatim>\<open>handleSubmit\<close>\<close>

text \<open>What the handler is given from outside: the clock, the public URL of a stored name, and
  how each of its four backend calls answers.\<close>

record submit_env =
  now :: nat
  upload_reply :: "unit reply"
  publicUrl :: "string \<Rightarrow> string"
  insert_reply :: "inserted reply"
  update_reply :: "unit reply"
  status_reply :: "unit reply"

definition missing_toast :: toast where
  "missing_toast = Toast ''Missing Information'' ''Please fill all required fields'' (Some Destructive)"

text \<open>The title in the source ends with an emoji, left out here.\<close>

definition submitted_toast :: "string \<Rightarrow> toast" where
  "submitted_toast code = Toast ''Report Submitted Successfully!'' (''Complaint ID: '' @ code) (Some Default)"

definition failed_toast :: toast where
  "failed_toast = Toast ''Submission Failed'' ''Please try again later'' (Some Destructive)"

text \<open>\<^verbatim>\<open>x || null\<close> on a string.\<close>

definition or_null :: "string \<Rightarrow> string option" where
  "or_null x = (if x = [] then None else Some x)"

definition insert_values :: "form_data \<Rightarrow> string option \<Rightarrow> string option \<Rightarrow> complaint_values" where
  "insert_values f mediaUrl audioUrl =
     \<lparr>v_state = state f, v_city = city f,
      v_address_line1 = or_null (address1 f),
      v_address_line2 =
        (if district f \<noteq> [] then
           Some (district f @ (if address2 f \<noteq> [] then '', '' @ address2 f else []))
         else or_null (address2 f)),
      v_issue_type = issueType f, v_description = description f,
      v_media_url = mediaUrl, v_voice_note_url = audioUrl\<rparr>"

text \<open>The name the media is stored under: \<^verbatim>\<open>Date.now()\<close>, a dot, and what follows the last
  dot of the file's name.\<close>

definition upload_name :: "submit_env \<Rightarrow> js_file \<Rightarrow> string" where
  "upload_name env file =
     (let fileExt = (case pop_last (split_str CHR ''.'' (file_name file)) of
                       None \<Rightarrow> ''undefined'' | Some e \<Rightarrow> e)
      in string_of_nat (now env) @ ''.'' @ fileExt)"

text \<open>The upload of the attached media: a throw or the media URL, and the backend after it.\<close>

definition upload_media :: "submit_env \<Rightarrow> form_data \<Rightarrow> backend \<Rightarrow> (js_error + string option) \<times> backend" where
  "upload_media env f b =
     (case media f of
        None \<Rightarrow> (Inr None, b)
      | Some file \<Rightarrow>
          (let fileName = upload_name env file;
               b' = storage_upload (upload_reply env) fileName file b
           in case await_checked (upload_reply env) of
                Inl e \<Rightarrow> (Inl e, b')
              | Inr _ \<Rightarrow> (Inr (Some (publicUrl env fileName)), b')))"

text \<open>The auto-assignment: the two awaited writes, neither result looked at.\<close>

definition auto_assign :: "submit_env \<Rightarrow> form_data \<Rightarrow> inserted \<Rightarrow> backend \<Rightarrow> (js_error + unit) \<times> backend" where
  "auto_assign env f d b =
     (case mapAuthorityForIssue (issueType f) of
        None \<Rightarrow> (Inr (), b)
      | Some authority \<Rightarrow>
          (let b1 = complaints_update (update_reply env) (ins_id d) Assigned authority b in
           case await_ignored (update_reply env) of
             Inl e \<Rightarrow> (Inl e, b1)
           | Inr _ \<Rightarrow>
               (let b2 = status_updates_insert (status_reply env)
                           \<lparr>su_complaint_id = ins_id d, su_status = Assigned,
                            su_assigned_to = Some authority,
                            su_note = ''Auto-routed based on issue type: '' @ issueType f\<rparr> b1
                in (await_ignored (status_reply env), b2))))"

text \<open>The \<^verbatim>\<open>try\<close> block: a throw or normal completion, with the state and backend reached.\<close>

definition submit_try :: "submit_env \<Rightarrow> ui \<Rightarrow> backend \<Rightarrow> (js_error + unit) \<times> ui \<times> backend" where
  "submit_try env u b =
     (let f = formData u in
      case upload_media env f b of
        (Inl e, b1) \<Rightarrow> (Inl e, u, b1)
      | (Inr mediaUrl, b1) \<Rightarrow>
          (let v = insert_values f mediaUrl None;
               b2 = complaints_insert (insert_reply env) v b1
           in case await_checked (insert_reply env) of
                Inl e \<Rightarrow> (Inl e, u, b2)
              | Inr d \<Rightarrow>
                  (let u1 = u\<lparr>complaintId := ins_complaint_code d\<rparr> in
                   case auto_assign env f d b2 of
                     (Inl e, b3) \<Rightarrow> (Inl e, u1, b3)
                   | (Inr _, b3) \<Rightarrow>
                       (Inr (),
                        u1\<lparr>step := Success,
                           toasts := toasts u1 @ [submitted_toast (ins_complaint_code d)]\<rparr>,
                        b3))))"

definition handleSubmit :: "submit_env \<Rightarrow> ui \<Rightarrow> backend \<Rightarrow> ui \<times> backend" where
  "handleSubmit env u b =
     (let f = formData u in
      if state f = [] \<or> city f = [] \<or> issueType f = [] \<or> description f = [] then
        (u\<lparr>toasts := toasts u @ [missing_toast]\<rparr>, b)
      else
        (case submit_try env (u\<lparr>isSubmitting := True\<rparr>) b of
           (Inr _, u1, b1) \<Rightarrow> (u1\<lparr>isSubmitting := False\<rparr>, b1)
         | (Inl e, u1, b1) \<Rightarrow>
             (u1\<lparr>console := console u1 @ [e], toasts := toasts u1 @ [failed_toast],
                 isSubmitting := False\<rparr>, b1)))"

text \<open>The requests a handler sent: those the backend holds after it and not before.\<close>

definition requests_sent :: "backend \<Rightarrow> backend \<Rightarrow> request list" where
  "requests_sent b b' = drop (length (requests b)) (requests b')"

text \<open>The four required fields are filled.\<close>

definition required_filled :: "form_data \<Rightarrow> bool" where
  "required_filled f = (state f \<noteq> [] \<and> city f \<noteq> [] \<and> issueType f \<noteq> [] \<and> description f \<noteq> [])"

subsection \<open>The notification service\<close>



































subsection \<open>Sample inputs\<close>

definition sample_form :: form_data where
  "sample_form = \<lparr>state = ''Delhi'', city = ''Delhi'', district = [], address1 = [],
     address2 = [], issueType = ''electricity'', description = ''No power since morning'',
     media = None, audio = None\<rparr>"

definition sample_ui :: ui where
  "sample_ui = \<lparr>step = Form, complaintId = [], isSubmitting = False, isAnalyzing = False,
     formData = sample_form, inputValue = [], toasts = [], console = []\<rparr>"

definition others_ui :: ui where
  "others_ui = sample_ui\<lparr>formData := sample_form\<lparr>issueType := ''others''\<rparr>\<rparr>"

definition sample_file :: js_file where
  "sample_file = \<lparr>file_name = ''pole.jpg'', file_bytes = ''JFIF''\<rparr>"

definition empty_backend :: backend where
  "empty_backend = \<lparr>blobs = [], complaints = [], complaint_status_updates = [],
     notifications = [], requests = []\<rparr>"

definition sample_inserted :: inserted where
  "sample_inserted = \<lparr>ins_id = ''c-1'', ins_complaint_code = ''NGR123456''\<rparr>"

definition ok_env :: submit_env where
  "ok_env = \<lparr>now = 1700, upload_reply = Data (), publicUrl = (\<lambda>name. ''https://blobs/'' @ name),
     insert_reply = Data sample_inserted, update_reply = Data (), status_reply = Data ()\<rparr>"





definition sample_reader_result :: "string option" where
  "sample_reader_result = Some ''data:image/jpeg;base64,SkZJRg''"

definition irrelevant_env :: upload_env where
  "irrelevant_env = \<lparr>reader_result = sample_reader_result,
     invoke_reply = Data (Some \<lparr>is_relevant = False, ai_description = [], reason = Some ''A cat''\<rparr>)\<rparr>"

definition relevant_env :: upload_env where
  "relevant_env = \<lparr>reader_result = sample_reader_result,
     invoke_reply = Data (Some \<lparr>is_relevant = True, ai_description = ''A fallen pole'', reason = None\<rparr>)\<rparr>"

text \<open>The service answers with the empty object.\<close>

definition empty_body :: response_body where
  "empty_body = \<lparr>rb_is_relevant = None, rb_description = None, rb_reason = None\<rparr>"

definition malformed_env :: upload_env where
  "malformed_env = \<lparr>reader_result = sample_reader_result,
     invoke_reply = Data (Some (read_body empty_body))\<rparr>"

definition unreachable_env :: upload_env where
  "unreachable_env = \<lparr>reader_result = sample_reader_result,
     invoke_reply = ErrorField (ClientError ''Failed to send a request to the Edge Function'')\<rparr>"

section \<open>Properties\<close>

subsection \<open>Strings\<close>

lemma startsWith_iff: "startsWith s sub \<longleftrightarrow> (\<exists>q. s = sub @ q)"
  by (induction s sub rule: startsWith.induct) auto

lemma includes_str_iff: "includes_str s sub \<longleftrightarrow> (\<exists>p q. s = p @ sub @ q)"
proof (induction s)
  case Nil
  then show ?case by auto
next
  case (Cons x xs)
  show ?case
  proof
    assume "includes_str (x # xs) sub"
    then consider "startsWith (x # xs) sub" | "includes_str xs sub" by auto
    then show "\<exists>p q. x # xs = p @ sub @ q"
    proof cases
      case 1
      then obtain q where "x # xs = sub @ q" using startsWith_iff by blast
      then have "x # xs = [] @ sub @ q" by simp
      then show ?thesis by blast
    next
      case 2
      then obtain p q where "xs = p @ sub @ q" using Cons.IH by blast
      then have "x # xs = (x # p) @ sub @ q" by simp
      then show ?thesis by blast
    qed
  next
    assume "\<exists>p q. x # xs = p @ sub @ q"
    then obtain p q where pq: "x # xs = p @ sub @ q" by blast
    show "includes_str (x # xs) sub"
    proof (cases p)
      case Nil
      with pq have "startsWith (x # xs) sub" using startsWith_iff by auto
      then show ?thesis by simp
    next
      case (Cons a p')
      with pq have "xs = p' @ sub @ q" by simp
      then have "includes_str xs sub" using Cons.IH by blast
      then show ?thesis by simp
    qed
  qed
qed

lemma toLowerCase_idem: "toLowerCase (toLowerCase s) = toLowerCase s"
proof -
  have "toLowerChar (toLowerChar c) = toLowerChar c" for c
    by (simp add: toLowerChar_def upperChars_def lowerChars_def)
  then show ?thesis by (simp add: toLowerCase_def)
qed

subsection \<open>Routing\<close>

lemma mapAuthorityForIssue_lower: "mapAuthorityForIssue (toLowerCase issue) = mapAuthorityForIssue issue"
  by (simp add: mapAuthorityForIssue_def toLowerCase_idem)

lemma mapAuthorityForIssue_tokens:
  "mapAuthorityForIssue ''streetlight'' = Some ''Nagar Nigam / Municipal Corporation (Street Lighting Division)''"
  "mapAuthorityForIssue ''pothole'' = Some ''Public Works Department (PWD)''"
  "mapAuthorityForIssue ''garbage'' = Some ''Nagar Nigam / Municipal Corporation''"
  "mapAuthorityForIssue ''drainage'' = Some ''Jal Board / Water Supply Department''"
  "mapAuthorityForIssue ''water'' = Some ''Jal Board / Water Supply Department''"
  "mapAuthorityForIssue ''electricity'' = Some ''Electricity Department''"
  "mapAuthorityForIssue ''noise'' = Some ''Pollution Control Board / Local Police Authority''"
  "mapAuthorityForIssue ''others'' = None"
  by (simp_all add: mapAuthorityForIssue_def toLowerCase_def toLowerChar_def upperChars_def lowerChars_def)

subsection \<open>\<^verbatim>\<open>handleSubmit\<close>: validation, upload, insert, routing\<close>

lemma handleSubmit_invalid:
  "\<not> required_filled (formData u) \<Longrightarrow>
     handleSubmit env u b = (u\<lparr>toasts := toasts u @ [missing_toast]\<rparr>, b)"
  by (auto simp: handleSubmit_def required_filled_def Let_def)

lemma handleSubmit_valid:
  "required_filled (formData u) \<Longrightarrow>
     handleSubmit env u b =
       (case submit_try env (u\<lparr>isSubmitting := True\<rparr>) b of
           (Inr _, u1, b1) \<Rightarrow> (u1\<lparr>isSubmitting := False\<rparr>, b1)
         | (Inl e, u1, b1) \<Rightarrow>
             (u1\<lparr>console := console u1 @ [e], toasts := toasts u1 @ [failed_toast],
                 isSubmitting := False\<rparr>, b1))"
  by (auto simp: handleSubmit_def required_filled_def Let_def)

lemma requests_sent_same: "requests_sent b b = []"
  by (simp add: requests_sent_def)

lemma requests_sent_append: "requests b' = requests b @ rs \<Longrightarrow> requests_sent b b' = rs"
  by (simp add: requests_sent_def)

lemma upload_media_none: "media f = None \<Longrightarrow> upload_media env f b = (Inr None, b)"
  by (simp add: upload_media_def)

lemma upload_media_fail:
  assumes "media f = Some file" "upload_reply env = ErrorField e \<or> upload_reply env = Throws e"
  shows "upload_media env f b =
     (Inl e, b\<lparr>requests := requests b @ [StorageUpload (upload_name env file) file]\<rparr>)"
  using assms by (auto simp: upload_media_def storage_upload_def await_checked_def Let_def)

lemma upload_media_ok:
  assumes "media f = Some file" "upload_reply env = Data x"
  shows "upload_media env f b =
     (Inr (Some (publicUrl env (upload_name env file))),
      b\<lparr>requests := requests b @ [StorageUpload (upload_name env file) file],
        blobs := blobs b @ [(upload_name env file, file)]\<rparr>)"
  using assms by (auto simp: upload_media_def storage_upload_def await_checked_def Let_def)

lemma auto_assign_none:
  "mapAuthorityForIssue (issueType f) = None \<Longrightarrow> auto_assign env f d b = (Inr (), b)"
  by (simp add: auto_assign_def)

lemma auto_assign_no_throw:
  assumes "\<forall>e. update_reply env \<noteq> Throws e" "\<forall>e. status_reply env \<noteq> Throws e"
  shows "fst (auto_assign env f d b) = Inr ()"
  using assms
  by (cases "update_reply env"; cases "status_reply env")
     (auto simp: auto_assign_def await_ignored_def Let_def split: option.splits)

text \<open>
  C1. When any of \<open>state\<close>, \<open>city\<close>, \<open>issueType\<close>, \<open>description\<close> is empty,
  \<^verbatim>\<open>handleSubmit\<close> only shows the ``Missing Information'' toast: the component's state is
  otherwise as before, the backend is exactly as before (no blob, no complaint, no status
  update, no notification), and no request was sent.
\<close>

theorem validation_failed_before_any_call:
  assumes "state (formData u) = [] \<or> city (formData u) = [] \<or> issueType (formData u) = []
           \<or> description (formData u) = []"
  shows "fst (handleSubmit env u b) = u\<lparr>toasts := toasts u @ [missing_toast]\<rparr>
       \<and> snd (handleSubmit env u b) = b
       \<and> requests_sent b (snd (handleSubmit env u b)) = []"
proof -
  from assms have "\<not> required_filled (formData u)"
    by (auto simp: required_filled_def)
  then have "handleSubmit env u b = (u\<lparr>toasts := toasts u @ [missing_toast]\<rparr>, b)"
    by (rule handleSubmit_invalid)
  then show ?thesis by (simp add: requests_sent_same)
qed

theorem validation_failed_witness:
  "city (formData (sample_ui\<lparr>formData := sample_form\<lparr>city := []\<rparr>\<rparr>)) = []
   \<and> toasts (fst (handleSubmit ok_env (sample_ui\<lparr>formData := sample_form\<lparr>city := []\<rparr>\<rparr>) empty_backend))
       = [missing_toast]
   \<and> snd (handleSubmit ok_env (sample_ui\<lparr>formData := sample_form\<lparr>city := []\<rparr>\<rparr>) empty_backend)
       = empty_backend"
proof -
  have h: "state (formData (sample_ui\<lparr>formData := sample_form\<lparr>city := []\<rparr>\<rparr>)) = []
         \<or> city (formData (sample_ui\<lparr>formData := sample_form\<lparr>city := []\<rparr>\<rparr>)) = []
         \<or> issueType (formData (sample_ui\<lparr>formData := sample_form\<lparr>city := []\<rparr>\<rparr>)) = []
         \<or> description (formData (sample_ui\<lparr>formData := sample_form\<lparr>city := []\<rparr>\<rparr>)) = []"
    by simp
  show ?thesis
    using validation_failed_before_any_call [OF h, of ok_env empty_backend]
    by (simp add: sample_ui_def)
qed

text \<open>
  C7. With media attached and the upload answering with an error (in its \<open>error\<close> field or by
  a throw), no complaint row is inserted and no insert is even requested, and nothing is
  stored in the bucket. When the required fields are filled, so that the upload is reached,
  the only request sent is the upload; the upload's error is what the handler catches and
  logs, and the user is shown ``Submission Failed''.
\<close>

theorem media_upload_failure_aborts:
  assumes "media (formData u) = Some file"
    and "upload_reply env = ErrorField e \<or> upload_reply env = Throws e"
  shows "complaints (snd (handleSubmit env u b)) = complaints b
       \<and> blobs (snd (handleSubmit env u b)) = blobs b
       \<and> (\<forall>v. ComplaintsInsert v \<notin> set (requests_sent b (snd (handleSubmit env u b))))
       \<and> (required_filled (formData u) \<longrightarrow>
            fst (handleSubmit env u b) =
              u\<lparr>console := console u @ [e], toasts := toasts u @ [failed_toast],
                isSubmitting := False\<rparr>
            \<and> requests_sent b (snd (handleSubmit env u b)) =
                [StorageUpload (upload_name env file) file])"
proof (cases "required_filled (formData u)")
  case False
  then show ?thesis by (simp add: handleSubmit_invalid requests_sent_same)
next
  case True
  have "upload_media env (formData u) b =
     (Inl e, b\<lparr>requests := requests b @ [StorageUpload (upload_name env file) file]\<rparr>)"
    using assms by (rule upload_media_fail)
  then have "handleSubmit env u b =
     (u\<lparr>console := console u @ [e], toasts := toasts u @ [failed_toast], isSubmitting := False\<rparr>,
      b\<lparr>requests := requests b @ [StorageUpload (upload_name env file) file]\<rparr>)"
    using True by (simp add: handleSubmit_valid submit_try_def Let_def)
  then show ?thesis by (simp add: requests_sent_append)
qed

theorem media_upload_failure_witness:
  "complaints (snd (handleSubmit (ok_env\<lparr>upload_reply := ErrorField (ClientError ''quota'')\<rparr>)
      (sample_ui\<lparr>formData := sample_form\<lparr>media := Some sample_file\<rparr>\<rparr>) empty_backend)) = []
   \<and> toasts (fst (handleSubmit (ok_env\<lparr>upload_reply := ErrorField (ClientError ''quota'')\<rparr>)
      (sample_ui\<lparr>formData := sample_form\<lparr>media := Some sample_file\<rparr>\<rparr>) empty_backend)) = [failed_toast]
   \<and> console (fst (handleSubmit (ok_env\<lparr>upload_reply := ErrorField (ClientError ''quota'')\<rparr>)
      (sample_ui\<lparr>formData := sample_form\<lparr>media := Some sample_file\<rparr>\<rparr>) empty_backend))
       = [ClientError ''quota'']"
proof -
  have h1: "media (formData (sample_ui\<lparr>formData := sample_form\<lparr>media := Some sample_file\<rparr>\<rparr>))
              = Some sample_file"
    by simp
  have h2: "upload_reply (ok_env\<lparr>upload_reply := ErrorField (ClientError ''quota'')\<rparr>)
              = ErrorField (ClientError ''quota'')
          \<or> upload_reply (ok_env\<lparr>upload_reply := ErrorField (ClientError ''quota'')\<rparr>)
              = Throws (ClientError ''quota'')"
    by simp
  have h3: "required_filled (formData (sample_ui\<lparr>formData := sample_form\<lparr>media := Some sample_file\<rparr>\<rparr>))"
    by (simp add: required_filled_def sample_form_def)
  show ?thesis
    using media_upload_failure_aborts [OF h1 h2, of empty_backend] h3
    by (simp add: sample_ui_def empty_backend_def)
qed

lemma auto_assign_some:
  assumes "mapAuthorityForIssue (issueType f) = Some a" "\<forall>e. update_reply env \<noteq> Throws e"
  shows "auto_assign env f d b =
    (await_ignored (status_reply env),
     status_updates_insert (status_reply env)
       \<lparr>su_complaint_id = ins_id d, su_status = Assigned, su_assigned_to = Some a,
        su_note = ''Auto-routed based on issue type: '' @ issueType f\<rparr>
       (complaints_update (update_reply env) (ins_id d) Assigned a b))"
  using assms
  by (cases "update_reply env") (simp_all add: auto_assign_def await_ignored_def Let_def)

lemma submit_try_inserted:
  assumes "media (formData u) = None \<or> upload_reply env = Data ()"
    and "insert_reply env = Data d"
  shows "\<exists>m b1. upload_media env (formData u) b = (Inr m, b1)
     \<and> complaints b1 = complaints b \<and> complaint_status_updates b1 = complaint_status_updates b
     \<and> notifications b1 = notifications b
     \<and> submit_try env u b =
        (case auto_assign env (formData u) d
                (complaints_insert (Data d) (insert_values (formData u) m None) b1) of
           (Inl e, b3) \<Rightarrow> (Inl e, u\<lparr>complaintId := ins_complaint_code d\<rparr>, b3)
         | (Inr _, b3) \<Rightarrow>
             (Inr (), u\<lparr>complaintId := ins_complaint_code d, step := Success,
                        toasts := toasts u @ [submitted_toast (ins_complaint_code d)]\<rparr>, b3))"
proof (cases "media (formData u)")
  case None
  then show ?thesis using assms(2)
    by (simp add: upload_media_none submit_try_def Let_def await_checked_def
          split: prod.splits sum.splits)
next
  case (Some fl)
  with assms(1) have ok: "upload_reply env = Data ()" by simp
  show ?thesis using assms(2)
    by (simp add: upload_media_ok[OF Some ok] submit_try_def Let_def await_checked_def
          split: prod.splits sum.splits)
qed

lemma complaints_update_ids:
  "map c_id (complaints (complaints_update r cid st a b)) = map c_id (complaints b)"
  by (cases r) (simp_all add: complaints_update_def Let_def comp_def cong: map_cong)

lemma status_updates_insert_complaints:
  "complaints (status_updates_insert r row b) = complaints b"
  by (cases r) (simp_all add: status_updates_insert_def Let_def)

lemma auto_assign_ids:
  "map c_id (complaints (snd (auto_assign env f d b))) = map c_id (complaints b)"
  by (cases "mapAuthorityForIssue (issueType f)"; cases "update_reply env")
     (simp_all add: auto_assign_def Let_def await_ignored_def complaints_update_ids
        status_updates_insert_complaints)

text \<open>
  C2. Take a submission whose complaint row has been inserted. The two routing writes are
  awaited as the client gives them, with no \<^verbatim>\<open>throwOnError\<close>, so a write that fails
  answers with the error in its \<^verbatim>\<open>error\<close> field; the handler looks at neither answer.
  Whether the update, the status insert, or both fail, the handler ends on the success
  screen with the generated code in \<open>complaintId\<close> and in the success toast, shows no
  failure toast and logs nothing, and the complaint row is in the table.
\<close>

theorem routing_failure_swallowed:
  assumes "required_filled (formData u)"
    and "media (formData u) = None \<or> upload_reply env = Data ()"
    and "insert_reply env = Data d"
    and "update_reply env = Data () \<or> update_reply env = ErrorField e1"
    and "status_reply env = Data () \<or> status_reply env = ErrorField e2"
  shows "step (fst (handleSubmit env u b)) = Success
       \<and> complaintId (fst (handleSubmit env u b)) = ins_complaint_code d
       \<and> toasts (fst (handleSubmit env u b)) = toasts u @ [submitted_toast (ins_complaint_code d)]
       \<and> console (fst (handleSubmit env u b)) = console u
       \<and> isSubmitting (fst (handleSubmit env u b)) = False
       \<and> ins_id d \<in> set (map c_id (complaints (snd (handleSubmit env u b))))"
proof -
  let ?u = "u\<lparr>isSubmitting := True\<rparr>"
  have fu: "formData ?u = formData u" by simp
  from submit_try_inserted[of ?u env d b] assms(2,3) fu
  obtain m b1 where
    st: "submit_try env ?u b =
        (case auto_assign env (formData u) d
                (complaints_insert (Data d) (insert_values (formData u) m None) b1) of
           (Inl e, b3) \<Rightarrow> (Inl e, ?u\<lparr>complaintId := ins_complaint_code d\<rparr>, b3)
         | (Inr _, b3) \<Rightarrow>
             (Inr (), ?u\<lparr>complaintId := ins_complaint_code d, step := Success,
                        toasts := toasts ?u @ [submitted_toast (ins_complaint_code d)]\<rparr>, b3))"
    by auto
  define b2 where "b2 = complaints_insert (Data d) (insert_values (formData u) m None) b1"
  from assms(4,5) have nt: "\<forall>e. update_reply env \<noteq> Throws e" "\<forall>e. status_reply env \<noteq> Throws e"
    by auto
  obtain b3 where aa: "auto_assign env (formData u) d b2 = (Inr (), b3)"
    using auto_assign_no_throw[OF nt, of "formData u" d b2]
    by (cases "auto_assign env (formData u) d b2") simp
  have "map c_id (complaints b3) = map c_id (complaints b2)"
    using auto_assign_ids[of env "formData u" d b2] aa by simp
  moreover have "ins_id d \<in> set (map c_id (complaints b2))"
    by (simp add: b2_def complaints_insert_def new_complaint_row_def)
  ultimately have row: "ins_id d \<in> set (map c_id (complaints b3))" by simp
  show ?thesis
    using assms(1) aa row by (simp add: handleSubmit_valid st b2_def)
qed

theorem routing_failure_swallowed_witness:
  "required_filled (formData sample_ui)
   \<and> step (fst (handleSubmit
        (ok_env\<lparr>update_reply := ErrorField (ClientError ''denied''),
                status_reply := ErrorField (ClientError ''timeout'')\<rparr>) sample_ui empty_backend)) = Success
   \<and> toasts (fst (handleSubmit
        (ok_env\<lparr>update_reply := ErrorField (ClientError ''denied''),
                status_reply := ErrorField (ClientError ''timeout'')\<rparr>) sample_ui empty_backend))
       = [submitted_toast ''NGR123456'']
   \<and> console (fst (handleSubmit
        (ok_env\<lparr>update_reply := ErrorField (ClientError ''denied''),
                status_reply := ErrorField (ClientError ''timeout'')\<rparr>) sample_ui empty_backend)) = []
   \<and> ''c-1'' \<in> set (map c_id (complaints (snd (handleSubmit
        (ok_env\<lparr>update_reply := ErrorField (ClientError ''denied''),
                status_reply := ErrorField (ClientError ''timeout'')\<rparr>) sample_ui empty_backend))))"
proof -
  let ?env = "ok_env\<lparr>update_reply := ErrorField (ClientError ''denied''),
                     status_reply := ErrorField (ClientError ''timeout'')\<rparr>"
  have h1: "required_filled (formData sample_ui)"
    by (simp add: required_filled_def sample_ui_def sample_form_def)
  have h2: "media (formData sample_ui) = None \<or> upload_reply ?env = Data ()"
    by (simp add: sample_ui_def sample_form_def)
  have h3: "insert_reply ?env = Data sample_inserted"
    by (simp add: ok_env_def)
  have h4: "update_reply ?env = Data () \<or> update_reply ?env = ErrorField (ClientError ''denied'')"
    by simp
  have h5: "status_reply ?env = Data () \<or> status_reply ?env = ErrorField (ClientError ''timeout'')"
    by simp
  have h6: "toasts sample_ui = [] \<and> console sample_ui = []
            \<and> ins_complaint_code sample_inserted = ''NGR123456'' \<and> ins_id sample_inserted = ''c-1''"
    by (simp add: sample_ui_def sample_inserted_def)
  show ?thesis
    using routing_failure_swallowed [OF h1 h2 h3 h4 h5, of empty_backend] h1 h6
    by simp
qed

text \<open>
  C3, as amended. Take a submission that reaches the insert, with an id the store has not
  used. If the issue type resolves to an authority and neither routing call throws, the
  update and the status insert are two separate writes, each taking effect exactly when its
  own answer is data: the complaint is \<open>Assigned\<close> to the authority when the update
  succeeded and stays \<open>Pending\<close> otherwise; there is exactly one status row for the complaint,
  \<open>Assigned\<close>, carrying the authority and the note ``Auto-routed based on issue type: ''
  followed by the issue type, when the status insert succeeded, and none otherwise. If the
  issue type resolves to no authority the complaint stays \<open>Pending\<close>, unassigned, and no status
  row is written.
\<close>

theorem routing_writes_separately:
  assumes "required_filled (formData u)"
    and "media (formData u) = None \<or> upload_reply env = Data ()"
    and "insert_reply env = Data d"
    and "ins_id d \<notin> c_id ` set (complaints b)"
    and "ins_id d \<notin> su_complaint_id ` set (complaint_status_updates b)"
  shows "(\<forall>a. mapAuthorityForIssue (issueType (formData u)) = Some a
             \<and> (\<forall>e. update_reply env \<noteq> Throws e) \<longrightarrow>
           map (\<lambda>c. (c_status c, c_assigned_to c))
             (filter (\<lambda>c. c_id c = ins_id d) (complaints (snd (handleSubmit env u b))))
             = [if update_reply env = Data () then (Assigned, Some a) else (Pending, None)]
           \<and> filter (\<lambda>s. su_complaint_id s = ins_id d)
               (complaint_status_updates (snd (handleSubmit env u b)))
             = (if status_reply env = Data () then
                  [\<lparr>su_complaint_id = ins_id d, su_status = Assigned, su_assigned_to = Some a,
                    su_note = ''Auto-routed based on issue type: '' @ issueType (formData u)\<rparr>]
                else []))
       \<and> (mapAuthorityForIssue (issueType (formData u)) = None \<longrightarrow>
           map (\<lambda>c. (c_status c, c_assigned_to c))
             (filter (\<lambda>c. c_id c = ins_id d) (complaints (snd (handleSubmit env u b))))
             = [(Pending, None)]
           \<and> complaint_status_updates (snd (handleSubmit env u b)) = complaint_status_updates b)"
proof -
  let ?u = "u\<lparr>isSubmitting := True\<rparr>"
  have fu: "formData ?u = formData u" by simp
  from submit_try_inserted[of ?u env d b] assms(2,3) fu
  obtain m b1 where c1: "complaints b1 = complaints b"
    and s1: "complaint_status_updates b1 = complaint_status_updates b"
    and st: "submit_try env ?u b =
        (case auto_assign env (formData u) d
                (complaints_insert (Data d) (insert_values (formData u) m None) b1) of
           (Inl e, b3) \<Rightarrow> (Inl e, ?u\<lparr>complaintId := ins_complaint_code d\<rparr>, b3)
         | (Inr _, b3) \<Rightarrow>
             (Inr (), ?u\<lparr>complaintId := ins_complaint_code d, step := Success,
                        toasts := toasts ?u @ [submitted_toast (ins_complaint_code d)]\<rparr>, b3))"
    by auto
  have nof: "filter (\<lambda>c. c_id c = ins_id d) (complaints b) = []"
    using assms(4) by (force simp: filter_empty_conv)
  have nos: "filter (\<lambda>s. su_complaint_id s = ins_id d) (complaint_status_updates b) = []"
    using assms(5) by (force simp: filter_empty_conv)
  have none: ?thesis if "mapAuthorityForIssue (issueType (formData u)) = None"
    using that assms(1) nof c1 s1
    by (simp add: handleSubmit_valid st auto_assign_none complaints_insert_def new_complaint_row_def)
  have some: ?thesis if a: "mapAuthorityForIssue (issueType (formData u)) = Some a" for a
  proof (cases "\<forall>e. update_reply env \<noteq> Throws e")
    case False
    then show ?thesis using a by auto
  next
    case True
    show ?thesis
      using a True assms(1) nof nos c1 s1
      by (cases "update_reply env"; cases "status_reply env")
         (simp_all add: handleSubmit_valid st auto_assign_some[OF a True] await_ignored_def
            complaints_insert_def complaints_update_def status_updates_insert_def
            new_complaint_row_def filter_map comp_def)
  qed
  show ?thesis
    by (cases "mapAuthorityForIssue (issueType (formData u))") (use none some in blast)+
qed

theorem routing_writes_witness:
  "required_filled (formData sample_ui)
   \<and> mapAuthorityForIssue (issueType (formData sample_ui)) = Some ''Electricity Department''
   \<and> map (\<lambda>c. (c_status c, c_assigned_to c))
       (filter (\<lambda>c. c_id c = ''c-1'') (complaints (snd (handleSubmit ok_env sample_ui empty_backend))))
       = [(Assigned, Some ''Electricity Department'')]
   \<and> filter (\<lambda>s. su_complaint_id s = ''c-1'')
       (complaint_status_updates (snd (handleSubmit ok_env sample_ui empty_backend)))
       = [\<lparr>su_complaint_id = ''c-1'', su_status = Assigned,
           su_assigned_to = Some ''Electricity Department'',
           su_note = ''Auto-routed based on issue type: electricity''\<rparr>]
   \<and> mapAuthorityForIssue (issueType (formData others_ui)) = None
   \<and> map (\<lambda>c. (c_status c, c_assigned_to c))
       (filter (\<lambda>c. c_id c = ''c-1'') (complaints (snd (handleSubmit ok_env others_ui empty_backend))))
       = [(Pending, None)]
   \<and> complaint_status_updates (snd (handleSubmit ok_env others_ui empty_backend)) = []"
proof -
  have h1: "required_filled (formData sample_ui)"
    by (simp add: required_filled_def sample_ui_def sample_form_def)
  have h2: "media (formData sample_ui) = None \<or> upload_reply ok_env = Data ()"
    by (simp add: sample_ui_def sample_form_def)
  have h3: "insert_reply ok_env = Data sample_inserted"
    by (simp add: ok_env_def)
  have h4: "ins_id sample_inserted \<notin> c_id ` set (complaints empty_backend)"
    by (simp add: empty_backend_def)
  have h5: "ins_id sample_inserted \<notin> su_complaint_id ` set (complaint_status_updates empty_backend)"
    by (simp add: empty_backend_def)
  have h6: "mapAuthorityForIssue (issueType (formData sample_ui)) = Some ''Electricity Department''"
    by (simp add: sample_ui_def sample_form_def mapAuthorityForIssue_tokens)
  have h7: "(\<forall>e. update_reply ok_env \<noteq> Throws e) \<and> update_reply ok_env = Data ()
            \<and> status_reply ok_env = Data ()"
    by (simp add: ok_env_def)
  have h8: "issueType (formData sample_ui) = ''electricity'' \<and> ins_id sample_inserted = ''c-1''"
    by (simp add: sample_ui_def sample_form_def sample_inserted_def)
  have o1: "required_filled (formData others_ui)"
    by (simp add: required_filled_def others_ui_def sample_ui_def sample_form_def)
  have o2: "media (formData others_ui) = None \<or> upload_reply ok_env = Data ()"
    by (simp add: others_ui_def sample_ui_def sample_form_def)
  have o6: "mapAuthorityForIssue (issueType (formData others_ui)) = None"
    by (simp add: others_ui_def sample_ui_def sample_form_def mapAuthorityForIssue_tokens)
  have o7: "complaint_status_updates empty_backend = []"
    by (simp add: empty_backend_def)
  from routing_writes_separately [OF h1 h2 h3 h4 h5] h6 h7 h8
  have a: "map (\<lambda>c. (c_status c, c_assigned_to c))
       (filter (\<lambda>c. c_id c = ''c-1'') (complaints (snd (handleSubmit ok_env sample_ui empty_backend))))
       = [(Assigned, Some ''Electricity Department'')]
   \<and> filter (\<lambda>s. su_complaint_id s = ''c-1'')
       (complaint_status_updates (snd (handleSubmit ok_env sample_ui empty_backend)))
       = [\<lparr>su_complaint_id = ''c-1'', su_status = Assigned,
           su_assigned_to = Some ''Electricity Department'',
           su_note = ''Auto-routed based on issue type: electricity''\<rparr>]"
    by simp
  from routing_writes_separately [OF o1 o2 h3 h4 h5] o6 o7 h8
  have b: "map (\<lambda>c. (c_status c, c_assigned_to c))
       (filter (\<lambda>c. c_id c = ''c-1'') (complaints (snd (handleSubmit ok_env others_ui empty_backend))))
       = [(Pending, None)]
   \<and> complaint_status_updates (snd (handleSubmit ok_env others_ui empty_backend)) = []"
    by simp
  from a b h1 h6 o6 show ?thesis by simp
qed

text \<open>The claim as written fails when only the update is refused: the submission succeeds,
  the complaint is still \<open>Pending\<close> and unassigned, and an \<open>Assigned\<close> status row exists.\<close>

theorem routing_not_atomic_counterexample:
  "step (fst (handleSubmit
        (ok_env\<lparr>update_reply := ErrorField (ClientError ''denied'')\<rparr>) sample_ui empty_backend)) = Success
   \<and> map (\<lambda>c. (c_id c, c_status c, c_assigned_to c))
       (complaints (snd (handleSubmit
          (ok_env\<lparr>update_reply := ErrorField (ClientError ''denied'')\<rparr>) sample_ui empty_backend)))
       = [(''c-1'', Pending, None)]
   \<and> map (\<lambda>s. (su_complaint_id s, su_status s, su_assigned_to s))
       (complaint_status_updates (snd (handleSubmit
          (ok_env\<lparr>update_reply := ErrorField (ClientError ''denied'')\<rparr>) sample_ui empty_backend)))
       = [(''c-1'', Assigned, Some ''Electricity Department'')]"
  by (simp add: handleSubmit_def submit_try_def upload_media_def auto_assign_def Let_def
        await_checked_def await_ignored_def complaints_insert_def complaints_update_def
        status_updates_insert_def new_complaint_row_def mapAuthorityForIssue_tokens
        ok_env_def sample_ui_def sample_form_def sample_inserted_def empty_backend_def)

subsection \<open>\<^verbatim>\<open>handleMediaUpload\<close>: the three outcomes of the analysis\<close>

lemma start_accepts:
  "issueType (formData u) \<noteq> [] \<Longrightarrow>
   handleMediaUpload_start (Some f) u =
     (u\<lparr>formData := (formData u)\<lparr>media := Some f, description := []\<rparr>, isAnalyzing := True\<rparr>,
      Some (f, issueType (formData u)))"
  by (simp add: handleMediaUpload_start_def)

lemma analysis_try_relevant:
  "r = Data (Some d) \<Longrightarrow> is_relevant d \<Longrightarrow>
   analysis_try r u = Inr (u\<lparr>formData := (formData u)\<lparr>description := ai_description d\<rparr>,
                   toasts := toasts u @ [analyzed_toast]\<rparr>)"
  by (simp add: analysis_try_def await_checked_def)

lemma analysis_try_irrelevant:
  "r = Data (Some d) \<Longrightarrow> \<not> is_relevant d \<Longrightarrow>
   analysis_try r u = Inr (u\<lparr>formData := (formData u)\<lparr>media := None\<rparr>, inputValue := [],
                   toasts := toasts u @ [irrelevant_toast (reason d)]\<rparr>)"
  by (simp add: analysis_try_def await_checked_def)

lemma analysis_try_fails:
  "r = ErrorField e \<or> r = Throws e \<Longrightarrow> analysis_try r u = Inl e"
  "analysis_try (Data None) u = Inl (TypeError ''Cannot read properties of null'')"
  by (auto simp: analysis_try_def await_checked_def)

lemma toast_distinct: "analysis_failed_toast \<noteq> irrelevant_toast r"
  by (simp add: analysis_failed_toast_def irrelevant_toast_def)

lemma handleSubmit_valid_toast:
  assumes "required_filled (formData u)"
  shows "\<exists>t. toasts (fst (handleSubmit env u b)) = toasts u @ [t] \<and> t \<noteq> missing_toast"
  using assms
  by (auto simp: handleSubmit_valid submit_try_def Let_def missing_toast_def failed_toast_def
        submitted_toast_def split: prod.splits sum.splits)

text \<open>
  C8, as amended. With an issue type chosen and the classification answering with a body:
  if the body says relevant with description \<open>D\<close>, the description field becomes \<open>D\<close> and the
  file stays attached; if it says not relevant, the attached file is cleared (and the file
  input reset), the toast carries the reason, and the description field is the empty string
  that the start of the upload put there, whatever it held before the upload. No other
  field of the form changes in either case.
\<close>

theorem analysis_verdict_branches:
  assumes "issueType (formData u) \<noteq> []" and "invoke_reply env = Data (Some d)"
  shows "(is_relevant d \<longrightarrow>
            formData (fst (handleMediaUpload env (Some f) u b))
              = (formData u)\<lparr>media := Some f, description := ai_description d\<rparr>)
       \<and> (\<not> is_relevant d \<longrightarrow>
            formData (fst (handleMediaUpload env (Some f) u b))
              = (formData u)\<lparr>media := None, description := []\<rparr>
            \<and> inputValue (fst (handleMediaUpload env (Some f) u b)) = []
            \<and> toasts (fst (handleMediaUpload env (Some f) u b))
                = toasts u @ [irrelevant_toast (reason d)])"
  using assms
  by (simp add: handleMediaUpload_def start_accepts onloadend_def Let_def
        analysis_try_relevant analysis_try_irrelevant)

theorem analysis_verdict_witness:
  "issueType (formData sample_ui) \<noteq> []
   \<and> description (formData (fst (handleMediaUpload relevant_env (Some sample_file) sample_ui empty_backend)))
       = ''A fallen pole''
   \<and> media (formData (fst (handleMediaUpload relevant_env (Some sample_file) sample_ui empty_backend)))
       = Some sample_file
   \<and> media (formData (fst (handleMediaUpload irrelevant_env (Some sample_file) sample_ui empty_backend)))
       = None
   \<and> description (formData (fst (handleMediaUpload irrelevant_env (Some sample_file) sample_ui empty_backend)))
       = []"
proof -
  have h: "issueType (formData sample_ui) \<noteq> []"
    by (simp add: sample_ui_def sample_form_def)
  have r: "invoke_reply relevant_env
             = Data (Some \<lparr>is_relevant = True, ai_description = ''A fallen pole'', reason = None\<rparr>)"
    by (simp add: relevant_env_def)
  have i: "invoke_reply irrelevant_env
             = Data (Some \<lparr>is_relevant = False, ai_description = [], reason = Some ''A cat''\<rparr>)"
    by (simp add: irrelevant_env_def)
  show ?thesis
    using h analysis_verdict_branches [OF h r, of sample_file empty_backend]
      analysis_verdict_branches [OF h i, of sample_file empty_backend]
    by simp
qed

text \<open>The claim as written fails on the description: it held text before the upload and is
  empty after an image judged irrelevant.\<close>

theorem description_not_restored_counterexample:
  "description (formData sample_ui) = ''No power since morning''
   \<and> description (formData (fst (handleMediaUpload irrelevant_env (Some sample_file) sample_ui
        empty_backend))) = []
   \<and> media (formData (fst (handleMediaUpload irrelevant_env (Some sample_file) sample_ui
        empty_backend))) = None"
  by (simp add: handleMediaUpload_def handleMediaUpload_start_def onloadend_def Let_def
        analysis_try_def await_checked_def sample_ui_def sample_form_def irrelevant_env_def)

text \<open>
  C9, as amended. With an issue type chosen, a classification call that answers with an
  error, throws, or answers with no body ends in the handler's \<^verbatim>\<open>catch\<close>: the error is
  logged and the toast is ``AI Analysis Failed'', which is not the toast of an irrelevant
  image, whatever its reason. Afterwards the description box is enabled and the submit
  button is as enabled as it was before the upload; once the user types a description, a
  form whose state and city are filled passes the validation of \<^verbatim>\<open>handleSubmit\<close>, which
  then goes on to the backend and ends with a toast other than ``Missing Information''.
  A response that parses but does not say whether the image is relevant is not told apart
  from a rejection: the handler shows ``Irrelevant Image Detected'', drops the attached
  file and logs nothing.
\<close>

theorem analysis_failure_degrades_to_manual:
  assumes "issueType (formData u) \<noteq> []"
  shows "(invoke_reply env = ErrorField e \<or> invoke_reply env = Throws e
          \<or> (invoke_reply env = Data None \<and> e = TypeError ''Cannot read properties of null'') \<longrightarrow>
           toasts (fst (handleMediaUpload env (Some f) u b)) = toasts u @ [analysis_failed_toast]
         \<and> (\<forall>r. analysis_failed_toast \<noteq> irrelevant_toast r)
         \<and> console (fst (handleMediaUpload env (Some f) u b)) = console u @ [e]
         \<and> \<not> description_disabled (fst (handleMediaUpload env (Some f) u b))
         \<and> submit_disabled (fst (handleMediaUpload env (Some f) u b)) = isSubmitting u
         \<and> (\<forall>v senv b2. v \<noteq> [] \<and> state (formData u) \<noteq> [] \<and> city (formData u) \<noteq> [] \<longrightarrow>
              required_filled
                (formData (description_onChange v (fst (handleMediaUpload env (Some f) u b))))
              \<and> (\<exists>t. toasts (fst (handleSubmit senv
                        (description_onChange v (fst (handleMediaUpload env (Some f) u b))) b2))
                      = toasts u @ [analysis_failed_toast, t] \<and> t \<noteq> missing_toast)))
       \<and> (\<forall>rb. invoke_reply env = Data (Some (read_body rb)) \<and> \<not> well_formed rb \<longrightarrow>
           toasts (fst (handleMediaUpload env (Some f) u b))
             = toasts u @ [irrelevant_toast (rb_reason rb)]
         \<and> media (formData (fst (handleMediaUpload env (Some f) u b))) = None
         \<and> console (fst (handleMediaUpload env (Some f) u b)) = console u)"
proof -
  let ?u1 = "fst (handleMediaUpload env (Some f) u b)"
  have failing: "toasts ?u1 = toasts u @ [analysis_failed_toast]
         \<and> (\<forall>r. analysis_failed_toast \<noteq> irrelevant_toast r)
         \<and> console ?u1 = console u @ [e]
         \<and> \<not> description_disabled ?u1
         \<and> submit_disabled ?u1 = isSubmitting u
         \<and> (\<forall>v senv b2. v \<noteq> [] \<and> state (formData u) \<noteq> [] \<and> city (formData u) \<noteq> [] \<longrightarrow>
              required_filled (formData (description_onChange v ?u1))
              \<and> (\<exists>t. toasts (fst (handleSubmit senv (description_onChange v ?u1) b2))
                      = toasts u @ [analysis_failed_toast, t] \<and> t \<noteq> missing_toast))"
    if fl: "invoke_reply env = ErrorField e \<or> invoke_reply env = Throws e
          \<or> (invoke_reply env = Data None \<and> e = TypeError ''Cannot read properties of null'')"
  proof -
    have u1: "?u1 = u\<lparr>formData := (formData u)\<lparr>media := Some f, description := []\<rparr>,
                      console := console u @ [e],
                      toasts := toasts u @ [analysis_failed_toast], isAnalyzing := False\<rparr>"
      using assms fl
      by (auto simp: handleMediaUpload_def start_accepts onloadend_def Let_def analysis_try_fails)
    have manual: "required_filled (formData (description_onChange v ?u1))
        \<and> (\<exists>t. toasts (fst (handleSubmit senv (description_onChange v ?u1) b2))
                 = toasts u @ [analysis_failed_toast, t] \<and> t \<noteq> missing_toast)"
      if "v \<noteq> []" "state (formData u) \<noteq> []" "city (formData u) \<noteq> []" for v senv b2
    proof -
      have rf: "required_filled (formData (description_onChange v ?u1))"
        using that assms by (simp add: u1 description_onChange_def required_filled_def)
      from handleSubmit_valid_toast[OF rf, of senv b2] obtain t where
        "toasts (fst (handleSubmit senv (description_onChange v ?u1) b2))
           = toasts (description_onChange v ?u1) @ [t]" "t \<noteq> missing_toast"
        by blast
      then show ?thesis using rf by (simp add: u1 description_onChange_def)
    qed
    show ?thesis
      using manual by (simp add: u1 toast_distinct description_disabled_def submit_disabled_def)
  qed
  have unrecognised: "toasts ?u1 = toasts u @ [irrelevant_toast (rb_reason rb)]
         \<and> media (formData ?u1) = None \<and> console ?u1 = console u"
    if "invoke_reply env = Data (Some (read_body rb))" "\<not> well_formed rb" for rb
  proof -
    from that(2) have "\<not> is_relevant (read_body rb)"
      by (simp add: read_body_def well_formed_def)
    then show ?thesis
      using assms that(1)
      by (simp add: handleMediaUpload_def start_accepts onloadend_def Let_def
            analysis_try_irrelevant read_body_def)
  qed
  from failing unrecognised show ?thesis by blast
qed

theorem analysis_failure_witness:
  "issueType (formData sample_ui) \<noteq> []
   \<and> toasts (fst (handleMediaUpload unreachable_env (Some sample_file) sample_ui empty_backend))
       = [analysis_failed_toast]
   \<and> required_filled (formData (description_onChange ''Pole down on main road''
        (fst (handleMediaUpload unreachable_env (Some sample_file) sample_ui empty_backend))))
   \<and> rb_is_relevant empty_body = None
   \<and> toasts (fst (handleMediaUpload malformed_env (Some sample_file) sample_ui empty_backend))
       = [irrelevant_toast None]"
proof -
  have h: "issueType (formData sample_ui) \<noteq> []"
    by (simp add: sample_ui_def sample_form_def)
  have r: "invoke_reply unreachable_env
             = ErrorField (ClientError ''Failed to send a request to the Edge Function'')"
    by (simp add: unreachable_env_def)
  have g: "''Pole down on main road'' \<noteq> [] \<and> state (formData sample_ui) \<noteq> []
           \<and> city (formData sample_ui) \<noteq> [] \<and> toasts sample_ui = []"
    by (simp add: sample_ui_def sample_form_def)
  have m: "invoke_reply malformed_env = Data (Some (read_body empty_body))
           \<and> \<not> well_formed empty_body \<and> rb_is_relevant empty_body = None
           \<and> rb_reason empty_body = None"
    by (simp add: malformed_env_def well_formed_def empty_body_def)
  from analysis_failure_degrades_to_manual
         [OF h, of unreachable_env "ClientError ''Failed to send a request to the Edge Function''"
            sample_file empty_backend] r g
  have a: "toasts (fst (handleMediaUpload unreachable_env (Some sample_file) sample_ui empty_backend))
       = [analysis_failed_toast]
   \<and> required_filled (formData (description_onChange ''Pole down on main road''
        (fst (handleMediaUpload unreachable_env (Some sample_file) sample_ui empty_backend))))"
    by simp
  from analysis_failure_degrades_to_manual
         [OF h, of malformed_env "ClientError ''none''" sample_file empty_backend]
  have "invoke_reply malformed_env = Data (Some (read_body empty_body))
          \<and> \<not> well_formed empty_body \<longrightarrow>
        toasts (fst (handleMediaUpload malformed_env (Some sample_file) sample_ui empty_backend))
          = toasts sample_ui @ [irrelevant_toast (rb_reason empty_body)]"
    by blast
  with m g
  have b: "toasts (fst (handleMediaUpload malformed_env (Some sample_file) sample_ui empty_backend))
       = [irrelevant_toast None]"
    by simp
  from a b h m show ?thesis by simp
qed

text \<open>The claim as written fails on a malformed response that parses: the service answers
  with the empty object, and the user is told the image is irrelevant and loses the file.\<close>

theorem malformed_response_counterexample:
  "\<not> well_formed empty_body
   \<and> invoke_reply malformed_env = Data (Some (read_body empty_body))
   \<and> toasts (fst (handleMediaUpload malformed_env (Some sample_file) sample_ui empty_backend))
       = [irrelevant_toast None]
   \<and> media (formData (fst (handleMediaUpload malformed_env (Some sample_file) sample_ui
        empty_backend))) = None
   \<and> console (fst (handleMediaUpload malformed_env (Some sample_file) sample_ui empty_backend)) = []"
  by (simp add: handleMediaUpload_def handleMediaUpload_start_def onloadend_def Let_def
        analysis_try_def await_checked_def sample_ui_def sample_form_def malformed_env_def
        read_body_def empty_body_def well_formed_def)

text \<open>
  C10. With an issue type chosen, an upload whose analysis fails (the call answers with an
  error, throws, or answers with no body) leaves the form as the start of the upload made it:
  the file attached, the description empty, every other field as before. The callback itself
  changes no field of whatever form it finds. The attached file is gone after an upload
  exactly when the classification answered with a body that says not relevant.
\<close>

theorem analysis_failure_keeps_media:
  assumes "issueType (formData u) \<noteq> []"
  shows "(invoke_reply env = ErrorField e \<or> invoke_reply env = Throws e \<or> invoke_reply env = Data None
            \<longrightarrow> formData (fst (handleMediaUpload env (Some f) u b))
                  = (formData u)\<lparr>media := Some f, description := []\<rparr>
              \<and> formData (fst (onloadend env captured u' b')) = formData u')
       \<and> (media (formData (fst (handleMediaUpload env (Some f) u b))) = None
            \<longleftrightarrow> (\<exists>d. invoke_reply env = Data (Some d) \<and> \<not> is_relevant d))"
proof -
  have fails: "formData (fst (handleMediaUpload env (Some f) u b))
                  = (formData u)\<lparr>media := Some f, description := []\<rparr>
              \<and> formData (fst (onloadend env captured u' b')) = formData u'"
    if "invoke_reply env = ErrorField e \<or> invoke_reply env = Throws e \<or> invoke_reply env = Data None"
    using that assms
    by (auto simp: handleMediaUpload_def start_accepts onloadend_def Let_def analysis_try_fails)
  have cleared: "media (formData (fst (handleMediaUpload env (Some f) u b))) = None
            \<longleftrightarrow> (\<exists>d. invoke_reply env = Data (Some d) \<and> \<not> is_relevant d)"
    using assms
    by (cases "invoke_reply env")
       (auto simp: handleMediaUpload_def start_accepts onloadend_def Let_def analysis_try_def
          await_checked_def split: option.splits)
  from fails cleared show ?thesis by blast
qed

theorem analysis_failure_keeps_media_witness:
  "issueType (formData sample_ui) \<noteq> []
   \<and> formData (fst (handleMediaUpload unreachable_env (Some sample_file) sample_ui empty_backend))
       = sample_form\<lparr>media := Some sample_file, description := []\<rparr>"
proof -
  have h: "issueType (formData sample_ui) \<noteq> []"
    by (simp add: sample_ui_def sample_form_def)
  have r: "invoke_reply unreachable_env
             = ErrorField (ClientError ''Failed to send a request to the Edge Function'')"
    by (simp add: unreachable_env_def)
  have g: "formData sample_ui = sample_form"
    by (simp add: sample_ui_def)
  show ?thesis
    using h r g analysis_failure_keeps_media [OF h, of unreachable_env
        "ClientError ''Failed to send a request to the Edge Function''" sample_file empty_backend]
    by simp
qed

subsection \<open>\<^verbatim>\<open>mapAuthorityForIssue\<close>: the routing policy\<close>

lemma routing_policy_tokens:
  "routing_policy ''streetlight'' = Some ''Nagar Nigam / Municipal Corporation (Street Lighting Division)''"
  "routing_policy ''pothole'' = Some ''Public Works Department (PWD)''"
  "routing_policy ''garbage'' = Some ''Nagar Nigam / Municipal Corporation''"
  "routing_policy ''drainage'' = Some ''Jal Board / Water Supply Department''"
  "routing_policy ''water'' = Some ''Jal Board / Water Supply Department''"
  "routing_policy ''electricity'' = Some ''Electricity Department''"
  "routing_policy ''noise'' = Some ''Pollution Control Board / Local Police Authority''"
  "routing_policy ''others'' = None"
  by (simp_all add: routing_policy_def)

text \<open>
  C6. On every issue type of the closed set, in any letter case, \<^verbatim>\<open>mapAuthorityForIssue\<close>
  returns what the policy names for the token: the power authority for electricity, the
  water authority for water and drainage, municipal sanitation for garbage, public works
  for pothole, the lighting division for streetlight, the pollution or police authority for
  noise, nobody for others. On any string the rules are tried in the stated order on the
  lower-cased string, by substring, and the first that matches decides: ``electric'', then
  ``water'' or ``drain'', then ``garbage'', then ``pothole'' or ``road'', then ``street'',
  then ``transport'', then ``noise'', and no authority when none occurs.
\<close>

theorem routing_first_match_policy:
  "(toLowerCase issue \<in> set issueTypes \<longrightarrow>
      mapAuthorityForIssue issue = routing_policy (toLowerCase issue))
   \<and> (includes_str (toLowerCase issue) ''electric'' \<longrightarrow>
        mapAuthorityForIssue issue = Some ''Electricity Department'')
   \<and> (\<not> includes_str (toLowerCase issue) ''electric''
        \<and> (includes_str (toLowerCase issue) ''water'' \<or> includes_str (toLowerCase issue) ''drain'') \<longrightarrow>
        mapAuthorityForIssue issue = Some ''Jal Board / Water Supply Department'')
   \<and> (\<not> includes_str (toLowerCase issue) ''electric'' \<and> \<not> includes_str (toLowerCase issue) ''water''
        \<and> \<not> includes_str (toLowerCase issue) ''drain'' \<and> includes_str (toLowerCase issue) ''garbage'' \<longrightarrow>
        mapAuthorityForIssue issue = Some ''Nagar Nigam / Municipal Corporation'')
   \<and> (\<not> includes_str (toLowerCase issue) ''electric'' \<and> \<not> includes_str (toLowerCase issue) ''water''
        \<and> \<not> includes_str (toLowerCase issue) ''drain'' \<and> \<not> includes_str (toLowerCase issue) ''garbage''
        \<and> (includes_str (toLowerCase issue) ''pothole'' \<or> includes_str (toLowerCase issue) ''road'') \<longrightarrow>
        mapAuthorityForIssue issue = Some ''Public Works Department (PWD)'')
   \<and> (\<not> includes_str (toLowerCase issue) ''electric'' \<and> \<not> includes_str (toLowerCase issue) ''water''
        \<and> \<not> includes_str (toLowerCase issue) ''drain'' \<and> \<not> includes_str (toLowerCase issue) ''garbage''
        \<and> \<not> includes_str (toLowerCase issue) ''pothole'' \<and> \<not> includes_str (toLowerCase issue) ''road''
        \<and> includes_str (toLowerCase issue) ''street'' \<longrightarrow>
        mapAuthorityForIssue issue
          = Some ''Nagar Nigam / Municipal Corporation (Street Lighting Division)'')
   \<and> (\<not> includes_str (toLowerCase issue) ''electric'' \<and> \<not> includes_str (toLowerCase issue) ''water''
        \<and> \<not> includes_str (toLowerCase issue) ''drain'' \<and> \<not> includes_str (toLowerCase issue) ''garbage''
        \<and> \<not> includes_str (toLowerCase issue) ''pothole'' \<and> \<not> includes_str (toLowerCase issue) ''road''
        \<and> \<not> includes_str (toLowerCase issue) ''street''
        \<and> includes_str (toLowerCase issue) ''transport'' \<longrightarrow>
        mapAuthorityForIssue issue = Some ''Local Transport Authority / RTO'')
   \<and> (\<not> includes_str (toLowerCase issue) ''electric'' \<and> \<not> includes_str (toLowerCase issue) ''water''
        \<and> \<not> includes_str (toLowerCase issue) ''drain'' \<and> \<not> includes_str (toLowerCase issue) ''garbage''
        \<and> \<not> includes_str (toLowerCase issue) ''pothole'' \<and> \<not> includes_str (toLowerCase issue) ''road''
        \<and> \<not> includes_str (toLowerCase issue) ''street''
        \<and> \<not> includes_str (toLowerCase issue) ''transport''
        \<and> includes_str (toLowerCase issue) ''noise'' \<longrightarrow>
        mapAuthorityForIssue issue = Some ''Pollution Control Board / Local Police Authority'')
   \<and> (\<not> includes_str (toLowerCase issue) ''electric'' \<and> \<not> includes_str (toLowerCase issue) ''water''
        \<and> \<not> includes_str (toLowerCase issue) ''drain'' \<and> \<not> includes_str (toLowerCase issue) ''garbage''
        \<and> \<not> includes_str (toLowerCase issue) ''pothole'' \<and> \<not> includes_str (toLowerCase issue) ''road''
        \<and> \<not> includes_str (toLowerCase issue) ''street''
        \<and> \<not> includes_str (toLowerCase issue) ''transport''
        \<and> \<not> includes_str (toLowerCase issue) ''noise'' \<longrightarrow>
        mapAuthorityForIssue issue = None)"
proof -
  have closed: "mapAuthorityForIssue issue = routing_policy (toLowerCase issue)"
    if "toLowerCase issue \<in> set issueTypes"
  proof -
    have "mapAuthorityForIssue (toLowerCase issue) = routing_policy (toLowerCase issue)"
      using that
      by (auto simp: issueTypes_def mapAuthorityForIssue_tokens routing_policy_tokens)
    then show ?thesis by (simp add: mapAuthorityForIssue_lower)
  qed
  have ordered: "mapAuthorityForIssue issue =
     (if includes_str (toLowerCase issue) ''electric'' then Some ''Electricity Department''
      else if includes_str (toLowerCase issue) ''water'' \<or> includes_str (toLowerCase issue) ''drain''
        then Some ''Jal Board / Water Supply Department''
      else if includes_str (toLowerCase issue) ''garbage'' then Some ''Nagar Nigam / Municipal Corporation''
      else if includes_str (toLowerCase issue) ''pothole'' \<or> includes_str (toLowerCase issue) ''road''
        then Some ''Public Works Department (PWD)''
      else if includes_str (toLowerCase issue) ''street''
        then Some ''Nagar Nigam / Municipal Corporation (Street Lighting Division)''
      else if includes_str (toLowerCase issue) ''transport'' then Some ''Local Transport Authority / RTO''
      else if includes_str (toLowerCase issue) ''noise''
        then Some ''Pollution Control Board / Local Police Authority''
      else None)"
    by (simp only: mapAuthorityForIssue_def Let_def)
  show ?thesis
    using closed by (simp only: ordered) simp
qed

theorem routing_first_match_witness:
  "toLowerCase ''StreetLight'' \<in> set issueTypes
   \<and> mapAuthorityForIssue ''StreetLight''
       = Some ''Nagar Nigam / Municipal Corporation (Street Lighting Division)''
   \<and> includes_str (toLowerCase ''Electric pole on the road'') ''electric''
   \<and> includes_str (toLowerCase ''Electric pole on the road'') ''road''
   \<and> mapAuthorityForIssue ''Electric pole on the road'' = Some ''Electricity Department''"
proof -
  have l: "toLowerCase ''StreetLight'' = ''streetlight''"
    by (simp add: toLowerCase_def toLowerChar_def upperChars_def lowerChars_def)
  have h1: "toLowerCase ''StreetLight'' \<in> set issueTypes"
    by (simp add: l issueTypes_def)
  have h2: "includes_str (toLowerCase ''Electric pole on the road'') ''electric''
          \<and> includes_str (toLowerCase ''Electric pole on the road'') ''road''"
    by (simp add: toLowerCase_def toLowerChar_def upperChars_def lowerChars_def)
  show ?thesis
    using h1 h2 l routing_first_match_policy [of "''StreetLight''"]
      routing_first_match_policy [of "''Electric pole on the road''"]
    by (simp add: routing_policy_tokens)
qed

subsection \<open>\<^verbatim>\<open>handleSubmit\<close> sends nothing to the notification table\<close>











subsection \<open>The event loop fires timers in the order of a stable sort by time\<close>

















subsection \<open>Arming one complaint\<close>




















end
